theory Spec2Isabelle
  imports Main "HOL-Library.Word"
begin

section \<open>Python values and errors\<close>

text \<open>
  The script \<^verbatim>\<open>src/scripts/finetune.py\<close> is dynamically typed: a dataclass field
  holds whatever object it was given, so fields are modelled as Python values.
  A float is its IEEE-754 double bit pattern, a \<^verbatim>\<open>torch.dtype\<close> is named by its
  attribute name in \<^verbatim>\<open>torch\<close>, an object imported from a library is named by its
  qualified name, and a function or class defined by the script is named by its
  name and the line of its definition. A dict is the list of its items.
\<close>

datatype pyval =
    PNone
  | PBool bool
  | PInt int
  | PFloat "64 word"
  | PStr string
  | PDtype string
  | PModule string
  | PExternal string
  | PClass string nat
  | PFunction string nat
  | PDict "(pyval \<times> pyval) list"

datatype pyerror =
    NameError string
  | TypeError string
  | ImportError string
  | UnboundLocalError string
  | ExternalError string

text \<open>
  \<open>ExternalError\<close> stands for any exception raised inside a call into an external
  library. A statement either raises or continues, so sequencing is the usual
  bind of the error sum.
\<close>

definition and_then :: "pyerror + 'a \<Rightarrow> ('a \<Rightarrow> pyerror + 'b) \<Rightarrow> pyerror + 'b" where
  "and_then m f = (case m of Inl e \<Rightarrow> Inl e | Inr x \<Rightarrow> f x)"

text \<open>
  A block of statements runs in order from a state and stops at the first
  statement that raises; the result is the exception, if any, and the state at
  that moment.
\<close>

fun run :: "('s \<Rightarrow> pyerror + 's) list \<Rightarrow> 's \<Rightarrow> pyerror option \<times> 's" where
  "run [] s = (None, s)"
| "run (stmt # rest) s = (case stmt s of Inl e \<Rightarrow> (Some e, s) | Inr s' \<Rightarrow> run rest s')"

section \<open>The argument records (lines 62-104)\<close>

text \<open>
  \<^verbatim>\<open>QuanitzationArguments\<close> (the class name is spelt so at line 63) and
  \<^verbatim>\<open>QloraArguments\<close> with the fields they declare and the declared defaults.
\<close>

record QuanitzationArguments =
  load_in_4bit :: pyval
  bnb_4bit_compute_dtype :: pyval
  bnb_4bit_quant_type :: pyval
  use_nested_quant :: pyval

record QloraArguments =
  lora_r :: pyval
  lora_alpha :: pyval
  lora_dropout :: pyval
  bias :: pyval
  task_type :: pyval

definition QuanitzationArguments_defaults :: QuanitzationArguments where
  "QuanitzationArguments_defaults =
     \<lparr> load_in_4bit = PBool True,
       bnb_4bit_compute_dtype = PDtype ''float16'',
       bnb_4bit_quant_type = PStr ''nf4'',
       use_nested_quant = PBool False \<rparr>"

definition QloraArguments_defaults :: QloraArguments where
  \<comment> \<open>\<^verbatim>\<open>0.1\<close> is the double \<^verbatim>\<open>0x3FB999999999999A\<close>.\<close>
  "QloraArguments_defaults =
     \<lparr> lora_r = PInt 64,
       lora_alpha = PInt 16,
       lora_dropout = PFloat 0x3FB999999999999A,
       bias = PStr ''none'',
       task_type = PStr ''CAUSAL_LM'' \<rparr>"

section \<open>The configuration builders (lines 126-142)\<close>

text \<open>
  \<^verbatim>\<open>BitsAndBytesConfig\<close> and \<^verbatim>\<open>LoraConfig\<close> are classes of external libraries.
  A configuration object is modelled as the constructor applied to the keyword
  arguments of the call, in the order the call writes them; a keyword the call
  does not pass is absent from the list. \<open>kwarg\<close> reads one field.
\<close>

type_synonym kwargs = "(string \<times> pyval) list"

datatype BitsAndBytesConfig = BitsAndBytesConfig kwargs

datatype LoraConfig = LoraConfig kwargs

fun bnb_kwargs :: "BitsAndBytesConfig \<Rightarrow> kwargs" where
  "bnb_kwargs (BitsAndBytesConfig kws) = kws"

fun lora_kwargs :: "LoraConfig \<Rightarrow> kwargs" where
  "lora_kwargs (LoraConfig kws) = kws"

definition kwarg :: "kwargs \<Rightarrow> string \<Rightarrow> pyval option" where
  "kwarg kws name = map_of kws name"

definition build_bnb_config :: "QuanitzationArguments \<Rightarrow> BitsAndBytesConfig" where
  "build_bnb_config quant_args =
     BitsAndBytesConfig
       [(''load_in_4bit'', load_in_4bit quant_args),
        (''bnb_4bit_quant_type'', bnb_4bit_compute_dtype quant_args),
        (''bnb_4bit_compute_dtype'', bnb_4bit_compute_dtype quant_args)]"

definition build_lora_config :: "QloraArguments \<Rightarrow> LoraConfig" where
  "build_lora_config qlora_args =
     LoraConfig
       [(''lora_alpha'', lora_alpha qlora_args),
        (''lora_dropout'', lora_dropout qlora_args),
        (''r'', lora_r qlora_args),
        (''bias'', bias qlora_args),
        (''task_type'', task_type qlora_args)]"

section \<open>Saving the model (lines 106-115)\<close>

text \<open>
  \<^verbatim>\<open>Trainer\<close> is a class of an external library; the record holds what the
  function uses of a trainer object. \<open>model_state_dict\<close> is the outcome of
  \<^verbatim>\<open>trainer.model.state_dict()\<close>. The attribute \<^verbatim>\<open>trainer.args.should_save\<close> is
  either a data value that is not callable (a plain attribute or a property,
  holding a bool for instance) or a bound method of no arguments, given with the
  outcome of calling it. \<open>saved\<close> lists the calls of
  \<^verbatim>\<open>trainer._save\<close> made so far, each with its directory and state dict.
\<close>

datatype device = CPU | CUDA nat

record tensor =
  storage :: nat
  device :: device

definition cpu :: "tensor \<Rightarrow> tensor" where
  "cpu t = t\<lparr>device := CPU\<rparr>"

type_synonym state_dict = "(string \<times> tensor) list"

datatype attribute = Data pyval | Method "pyerror + pyval"

record Trainer =
  model_state_dict :: "pyerror + state_dict"
  args_should_save :: attribute
  saved :: "(pyval \<times> state_dict) list"

fun call_attribute :: "attribute \<Rightarrow> pyerror + pyval" where
  "call_attribute (Method outcome) = outcome"
| "call_attribute (Data v) = Inl (TypeError ''object is not callable'')"

fun truthy :: "pyval \<Rightarrow> bool" where
  "truthy PNone = False"
| "truthy (PBool b) = b"
| "truthy (PInt i) = (i \<noteq> 0)"
| "truthy (PFloat x) = (x \<noteq> 0 \<and> x \<noteq> 0x8000000000000000)"
| "truthy (PStr s) = (s \<noteq> [])"
| "truthy (PDict items) = (items \<noteq> [])"
| "truthy _ = True"

definition safe_save_model_for_hf_trainer ::
    "Trainer \<Rightarrow> pyval \<Rightarrow> (pyerror + pyval) \<times> Trainer" where
  "safe_save_model_for_hf_trainer trainer output_dir =
     (case model_state_dict trainer of
        Inl e \<Rightarrow> (Inl e, trainer)
      | Inr state_dict \<Rightarrow>
          (case call_attribute (args_should_save trainer) of
             Inl e \<Rightarrow> (Inl e, trainer)
           | Inr should \<Rightarrow>
               if truthy should then
                 let cpu_state_dict = map (\<lambda>(key, value). (key, cpu value)) state_dict
                 in (Inr PNone, trainer\<lparr>saved := saved trainer @ [(output_dir, cpu_state_dict)]\<rparr>)
               else (Inr PNone, trainer)))"

section \<open>Preprocessing (lines 117-118)\<close>

definition preprocess_data :: "'a \<Rightarrow> 'b \<Rightarrow> pyval" where
  "preprocess_data source tokenizer = PDict []"

section \<open>Names: globals and builtins\<close>

text \<open>
  The module's global namespace maps a name to the object bound to it. A name
  that a function or the module body reads is looked up in the globals and then
  in the builtins; a name bound in neither raises NameError. Of the builtins,
  those the script names are listed.
\<close>

type_synonym globals = "string \<rightharpoonup> pyval"

definition builtins :: "string \<rightharpoonup> pyval" where
  "builtins =
     map_of [(''str'', PExternal ''builtins.str''),
             (''int'', PExternal ''builtins.int''),
             (''bool'', PExternal ''builtins.bool''),
             (''float'', PExternal ''builtins.float''),
             (''list'', PExternal ''builtins.list'')]"

definition load_name :: "globals \<Rightarrow> string \<Rightarrow> pyerror + pyval" where
  "load_name g name =
     (case g name of
        Some v \<Rightarrow> Inr v
      | None \<Rightarrow> (case builtins name of Some v \<Rightarrow> Inr v | None \<Rightarrow> Inl (NameError name)))"

fun load_names :: "globals \<Rightarrow> string list \<Rightarrow> pyerror + pyval list" where
  "load_names g [] = Inr []"
| "load_names g (name # names) =
     and_then (load_name g name) (\<lambda>v.
     and_then (load_names g names) (\<lambda>vs. Inr (v # vs)))"

section \<open>The remaining argument records (lines 26-60)\<close>

text \<open>
  \<^verbatim>\<open>ModelTrainingArguments\<close> extends the external \<^verbatim>\<open>TrainingArguments\<close>; of the
  inherited fields the script reads \<^verbatim>\<open>output_dir\<close> only.
\<close>

record ModelArguments =
  model_name :: pyval
  new_model_name :: pyval

record DataArguments =
  hf_data_path :: pyval
  personal_data :: pyval

record ModelTrainingArguments =
  output_dir :: pyval
  cache_dir :: pyval
  model_max_length :: pyval

record PreTrainedTokenizer =
  pad_token :: pyval
  eos_token :: pyval

section \<open>The external libraries and the filesystem\<close>

text \<open>
  What the entry function asks of the external libraries is a parameter of the
  model: whether a third-party package can be imported, and the outcome (a
  result or an exception) of each library call the entry function makes. The
  parser yields the five argument records in the order of the class tuple.
\<close>

type_synonym parsed_args =
  "ModelArguments \<times> DataArguments \<times> ModelTrainingArguments
     \<times> QuanitzationArguments \<times> QloraArguments"

record world =
  installed :: "string \<Rightarrow> bool"
  HfArgumentParser_init :: "pyval list \<Rightarrow> pyerror + pyval"
  parse_args_into_dataclasses :: "pyval \<Rightarrow> pyerror + parsed_args"
  AutoModelForCausalLM_from_pretrained ::
    "pyval \<Rightarrow> BitsAndBytesConfig \<Rightarrow> pyval \<Rightarrow> pyerror + pyval"
  AutoTokenizer_from_pretrained :: "pyval \<Rightarrow> pyerror + PreTrainedTokenizer"

text \<open>
  A filesystem gives, for a directory path, the names of its entries (none when
  the path is no directory). A path found in a directory is the pair of the
  directory and the entry name.
\<close>

type_synonym filesystem = "string \<Rightarrow> string list"

type_synonym path = "string \<times> string"

text \<open>
  Shell-style matching of a name against a pattern in which \<^verbatim>\<open>*\<close> stands for
  any run of characters and every other character for itself, which covers the
  script's pattern \<^verbatim>\<open>checkpoint-*\<close>. \<open>glob\<close> is what
  \<^verbatim>\<open>pathlib.Path(dir).glob(pattern)\<close> yields for a pattern without a separator:
  the entries of the directory whose names match.
\<close>

fun fnmatch :: "string \<Rightarrow> string \<Rightarrow> bool" where
  "fnmatch [] [] = True"
| "fnmatch (c # cs) [] = False"
| "fnmatch [] (p # ps) = (p = CHR ''*'' \<and> fnmatch [] ps)"
| "fnmatch (c # cs) (p # ps) =
     (if p = CHR ''*'' then fnmatch (c # cs) ps \<or> fnmatch cs (p # ps)
      else c = p \<and> fnmatch cs ps)"

definition glob :: "filesystem \<Rightarrow> string \<Rightarrow> string \<Rightarrow> path list" where
  "glob fs dir pattern = map (\<lambda>name. (dir, name)) (filter (\<lambda>name. fnmatch name pattern) (fs dir))"

section \<open>The entry function (lines 120-124 and lines 144-165)\<close>

text \<open>
  The local variables of a call of \<^verbatim>\<open>finetune\<close>; a variable not yet assigned is
  \<open>None\<close>, and reading it raises UnboundLocalError.
\<close>

record frame =
  parser :: "pyval option"
  model_args :: "ModelArguments option"
  data_args :: "DataArguments option"
  training_args :: "ModelTrainingArguments option"
  quant_args :: "QuanitzationArguments option"
  qlora_args :: "QloraArguments option"
  bnb_config :: "BitsAndBytesConfig option"
  peft_config :: "LoraConfig option"
  model :: "pyval option"
  tokenizer :: "PreTrainedTokenizer option"
  resume_from_checkpoint :: "pyval option"
  checkpoints :: "path list option"

definition new_frame :: frame where
  "new_frame =
     \<lparr> parser = None, model_args = None, data_args = None, training_args = None,
       quant_args = None, qlora_args = None, bnb_config = None, peft_config = None,
       model = None, tokenizer = None, resume_from_checkpoint = None,
       checkpoints = None \<rparr>"

definition load_local :: "string \<Rightarrow> 'a option \<Rightarrow> pyerror + 'a" where
  "load_local name var =
     (case var of None \<Rightarrow> Inl (UnboundLocalError name) | Some x \<Rightarrow> Inr x)"

text \<open>
  The statements of the two definitions, each named by the line it starts at.
  A global name is looked up when the statement runs; a name the script binds
  is taken to denote the object the script binds it to, so a call of
  \<^verbatim>\<open>build_bnb_config\<close> is a call of the function above. The callee of a call is
  loaded before its arguments.
\<close>

definition parser_classes :: "string \<Rightarrow> string list" where
  "parser_classes quantization_class =
     [''ModelArguments'', ''DataArguments'', ''ModelTrainingArguments'',
      quantization_class, ''QloraArguments'']"

definition new_parser :: "string \<Rightarrow> globals \<Rightarrow> world \<Rightarrow> frame \<Rightarrow> pyerror + frame" where
  "new_parser quantization_class g w l =
     and_then (load_name g ''HfArgumentParser'') (\<lambda>_.
     and_then (load_names g (parser_classes quantization_class)) (\<lambda>classes.
     and_then (HfArgumentParser_init w classes) (\<lambda>p.
     Inr (l\<lparr>parser := Some p\<rparr>))))"

definition parse_args :: "world \<Rightarrow> frame \<Rightarrow> pyerror + frame" where
  "parse_args w l =
     and_then (load_local ''parser'' (parser l)) (\<lambda>p.
     and_then (parse_args_into_dataclasses w p) (\<lambda>(ma, da, ta, qa, la).
     Inr (l\<lparr>model_args := Some ma, data_args := Some da, training_args := Some ta,
            quant_args := Some qa, qlora_args := Some la\<rparr>)))"

definition line_121 :: "globals \<Rightarrow> world \<Rightarrow> frame \<Rightarrow> pyerror + frame" where
  "line_121 = new_parser ''QuantizationArguments''"

definition line_124 :: "world \<Rightarrow> frame \<Rightarrow> pyerror + frame" where
  "line_124 = parse_args"

definition line_145 :: "globals \<Rightarrow> world \<Rightarrow> frame \<Rightarrow> pyerror + frame" where
  "line_145 = new_parser ''QuanitzationArguments''"

definition line_148 :: "world \<Rightarrow> frame \<Rightarrow> pyerror + frame" where
  "line_148 = parse_args"

definition line_150 :: "globals \<Rightarrow> frame \<Rightarrow> pyerror + frame" where
  "line_150 g l =
     and_then (load_name g ''build_bnb_config'') (\<lambda>_.
     and_then (load_local ''quant_args'' (quant_args l)) (\<lambda>qa.
     Inr (l\<lparr>bnb_config := Some (build_bnb_config qa)\<rparr>)))"

definition line_151 :: "globals \<Rightarrow> frame \<Rightarrow> pyerror + frame" where
  "line_151 g l =
     and_then (load_name g ''build_lora_config'') (\<lambda>_.
     and_then (load_local ''qlora_args'' (qlora_args l)) (\<lambda>la.
     Inr (l\<lparr>peft_config := Some (build_lora_config la)\<rparr>)))"

definition line_153 :: "globals \<Rightarrow> world \<Rightarrow> frame \<Rightarrow> pyerror + frame" where
  "line_153 g w l =
     and_then (load_name g ''AutoModelForCausalLM'') (\<lambda>_.
     and_then (load_local ''model_args'' (model_args l)) (\<lambda>ma.
     and_then (load_local ''bnb_config'' (bnb_config l)) (\<lambda>cfg.
     and_then (AutoModelForCausalLM_from_pretrained w (model_name ma) cfg (PStr ''auto'')) (\<lambda>m.
     Inr (l\<lparr>model := Some m\<rparr>)))))"

definition line_159 :: "globals \<Rightarrow> world \<Rightarrow> frame \<Rightarrow> pyerror + frame" where
  "line_159 g w l =
     and_then (load_name g ''AutoTokenizer'') (\<lambda>_.
     and_then (load_local ''model_args'' (model_args l)) (\<lambda>ma.
     and_then (AutoTokenizer_from_pretrained w (model_name ma)) (\<lambda>t.
     Inr (l\<lparr>tokenizer := Some t\<rparr>))))"

definition line_160 :: "frame \<Rightarrow> pyerror + frame" where
  "line_160 l =
     and_then (load_local ''tokenizer'' (tokenizer l)) (\<lambda>t.
     Inr (l\<lparr>tokenizer := Some (t\<lparr>pad_token := eos_token t\<rparr>)\<rparr>))"

definition line_163 :: "frame \<Rightarrow> pyerror + frame" where
  "line_163 l = Inr (l\<lparr>resume_from_checkpoint := Some (PBool False)\<rparr>)"

text \<open>
  Lines 164-165. \<^verbatim>\<open>pathlib.Path(x)\<close> accepts a string and raises TypeError on
  another value of this model.
\<close>

definition checkpoint_discovery ::
    "globals \<Rightarrow> filesystem \<Rightarrow> ModelTrainingArguments option \<Rightarrow> pyerror + path list" where
  "checkpoint_discovery g fs args =
     and_then (load_name g ''list'') (\<lambda>_.
     and_then (load_name g ''pathlib'') (\<lambda>_.
     and_then (load_local ''training_args'' args) (\<lambda>ta.
       case output_dir ta of
         PStr d \<Rightarrow> Inr (glob fs d ''checkpoint-*'')
       | _ \<Rightarrow> Inl (TypeError ''expected str, bytes or os.PathLike object''))))"

definition line_164 :: "globals \<Rightarrow> filesystem \<Rightarrow> frame \<Rightarrow> pyerror + frame" where
  "line_164 g fs l =
     and_then (checkpoint_discovery g fs (training_args l)) (\<lambda>found.
     Inr (l\<lparr>checkpoints := Some found\<rparr>))"

text \<open>
  A call of either definition runs its statements from a fresh frame. Neither
  has a return statement: the call returns \<^verbatim>\<open>None\<close> unless a statement raises.
  The result is the exception, if any, and the frame at exit.
\<close>

definition finetune_120 :: "globals \<Rightarrow> world \<Rightarrow> pyerror option \<times> frame" where
  "finetune_120 g w = run [line_121 g w, line_124 w] new_frame"

definition lines_145_to_160 :: "globals \<Rightarrow> world \<Rightarrow> (frame \<Rightarrow> pyerror + frame) list" where
  "lines_145_to_160 g w =
     [line_145 g w, line_148 w, line_150 g, line_151 g, line_153 g w, line_159 g w, line_160]"

definition finetune_144 :: "globals \<Rightarrow> world \<Rightarrow> filesystem \<Rightarrow> pyerror option \<times> frame" where
  "finetune_144 g w fs =
     run (lines_145_to_160 g w @ [line_163, line_164 g fs]) new_frame"

section \<open>The module body (lines 1-170)\<close>

text \<open>
  Running the script executes the top-level statements in order on the global
  namespace. An import binds names or raises ImportError; the standard library
  is always importable, a third-party package when it is installed. An object
  imported from a module is named \<^verbatim>\<open>module.name\<close>.
\<close>

definition initial_globals :: "string \<Rightarrow> globals" where
  "initial_globals name = [''__name__'' \<mapsto> PStr name]"

definition stdlib :: "string list" where
  "stdlib = [''dataclasses'', ''typing'', ''logging'']"

definition importable :: "world \<Rightarrow> string \<Rightarrow> bool" where
  "importable w m = (m \<in> set stdlib \<or> installed w m)"

definition import_module :: "world \<Rightarrow> string \<Rightarrow> globals \<Rightarrow> pyerror + globals" where
  "import_module w m g =
     (if importable w m then Inr (g(m \<mapsto> PModule m)) else Inl (ImportError m))"

fun bind_imported :: "string \<Rightarrow> string list \<Rightarrow> globals \<Rightarrow> globals" where
  "bind_imported m [] g = g"
| "bind_imported m (name # names) g =
     bind_imported m names (g(name \<mapsto> PExternal (m @ ''.'' @ name)))"

definition from_import :: "world \<Rightarrow> string \<Rightarrow> string list \<Rightarrow> globals \<Rightarrow> pyerror + globals" where
  "from_import w m names g =
     (if importable w m then Inr (bind_imported m names g) else Inl (ImportError m))"

definition import_statements :: "world \<Rightarrow> (globals \<Rightarrow> pyerror + globals) list" where
  "import_statements w =
     [from_import w ''dataclasses'' [''dataclass'', ''field''],
      from_import w ''typing'' [''Optional'', ''Dict''],
      import_module w ''logging'',
      import_module w ''nvidia_smi'',
      import_module w ''torch'',
      from_import w ''datasets'' [''load_dataset''],
      from_import w ''transformers''
        [''AutoModelForCausalLM'', ''AutoTokenizer'', ''PreTrainedTokenizer'',
         ''BitsAndBytesConfig'', ''HfArgumentParser'', ''Trainer'', ''TrainingArguments''],
      from_import w ''peft'' [''LoraConfig'', ''AutoPeftModelForCausalLM''],
      from_import w ''trl'' [''SFTTrainer'']]"

definition line_23 :: "globals \<Rightarrow> pyerror + globals" where
  "line_23 g =
     and_then (load_name g ''logging'') (\<lambda>_.
     and_then (load_name g ''__name__'') (\<lambda>_.
     Inr (g(''logger'' \<mapsto> PExternal ''logging.Logger''))))"

definition line_24 :: "globals \<Rightarrow> pyerror + globals" where
  "line_24 g =
     and_then (load_name g ''logger'') (\<lambda>_.
     and_then (load_name g ''logging'') (\<lambda>_.
     Inr g))"

text \<open>
  A class body runs on the namespace of the class; a name it reads is looked up
  there first, then in the globals and the builtins. An annotated field
  \<^verbatim>\<open>name: annotation = field(default=..., metadata=...)\<close> evaluates the call of
  \<^verbatim>\<open>field\<close> (the names in its arguments after the callee), binds the name, and
  then evaluates the annotation, of which the names are looked up; the calls of
  \<^verbatim>\<open>field\<close> and the subscriptions of the annotations are taken to succeed.
\<close>

type_synonym namespace = "string \<rightharpoonup> pyval"

definition load_class_name :: "globals \<Rightarrow> namespace \<Rightarrow> string \<Rightarrow> pyerror + pyval" where
  "load_class_name g ns name = (case ns name of Some v \<Rightarrow> Inr v | None \<Rightarrow> load_name g name)"

fun load_class_names :: "globals \<Rightarrow> namespace \<Rightarrow> string list \<Rightarrow> pyerror + pyval list" where
  "load_class_names g ns [] = Inr []"
| "load_class_names g ns (name # names) =
     and_then (load_class_name g ns name) (\<lambda>v.
     and_then (load_class_names g ns names) (\<lambda>vs. Inr (v # vs)))"

definition field_decl ::
    "string \<Rightarrow> string list \<Rightarrow> string list \<Rightarrow> globals \<Rightarrow> namespace \<Rightarrow> pyerror + namespace" where
  "field_decl name default_names annotation_names g ns =
     and_then (load_class_name g ns ''field'') (\<lambda>_.
     and_then (load_class_names g ns default_names) (\<lambda>_.
     and_then (load_class_names g (ns(name \<mapsto> PExternal ''dataclasses.Field'')) annotation_names) (\<lambda>_.
     Inr (ns(name \<mapsto> PExternal ''dataclasses.Field'')))))"

text \<open>
  Line 53 is the chained assignment \<^verbatim>\<open>cache_dir = Optional[str] = field(...)\<close>:
  the value is computed, assigned to the name \<^verbatim>\<open>cache_dir\<close>, and then assigned
  to the item \<^verbatim>\<open>str\<close> of the object \<^verbatim>\<open>Optional\<close>. Of the values of this model
  only a dict supports item assignment; on any other object it raises
  TypeError.
\<close>

fun supports_item_assignment :: "pyval \<Rightarrow> bool" where
  "supports_item_assignment (PDict items) = True"
| "supports_item_assignment _ = False"

definition line_53 :: "globals \<Rightarrow> namespace \<Rightarrow> pyerror + namespace" where
  "line_53 g ns =
     and_then (load_class_name g ns ''field'') (\<lambda>_.
     and_then (load_class_name g (ns(''cache_dir'' \<mapsto> PExternal ''dataclasses.Field'')) ''Optional'') (\<lambda>target.
     and_then (load_class_name g (ns(''cache_dir'' \<mapsto> PExternal ''dataclasses.Field'')) ''str'') (\<lambda>key.
     if supports_item_assignment target
     then Inr (ns(''cache_dir'' \<mapsto> PExternal ''dataclasses.Field''))
     else Inl (TypeError ''object does not support item assignment''))))"

text \<open>
  A decorated class statement evaluates the decorator expression and the bases,
  runs the body on an empty namespace, and binds the class name to the new
  class; \<^verbatim>\<open>dataclass\<close> applied to the class is taken to succeed.
\<close>

definition class_stmt ::
    "string \<Rightarrow> nat \<Rightarrow> string list \<Rightarrow> (globals \<Rightarrow> namespace \<Rightarrow> pyerror + namespace) list
       \<Rightarrow> globals \<Rightarrow> pyerror + globals" where
  "class_stmt name line bases body g =
     and_then (load_name g ''dataclass'') (\<lambda>_.
     and_then (load_names g bases) (\<lambda>_.
     case run (map (\<lambda>stmt. stmt g) body) Map.empty of
       (Some e, ns) \<Rightarrow> Inl e
     | (None, ns) \<Rightarrow> Inr (g(name \<mapsto> PClass name line))))"

definition class_ModelArguments :: "globals \<Rightarrow> pyerror + globals" where
  "class_ModelArguments =
     class_stmt ''ModelArguments'' 27 []
       [field_decl ''model_name'' [] [''Optional'', ''str''],
        field_decl ''new_model_name'' [] [''Optional'', ''str'']]"

definition class_DataArguments :: "globals \<Rightarrow> pyerror + globals" where
  "class_DataArguments =
     class_stmt ''DataArguments'' 38 []
       [field_decl ''hf_data_path'' [] [''str''],
        field_decl ''personal_data'' [] [''Optional'', ''str'']]"

definition class_ModelTrainingArguments :: "globals \<Rightarrow> pyerror + globals" where
  "class_ModelTrainingArguments =
     class_stmt ''ModelTrainingArguments'' 49 [''TrainingArguments'']
       [line_53,
        field_decl ''model_max_length'' [] [''int'']]"

definition class_QuanitzationArguments :: "globals \<Rightarrow> pyerror + globals" where
  "class_QuanitzationArguments =
     class_stmt ''QuanitzationArguments'' 63 [''BitsAndBytesConfig'']
       [field_decl ''load_in_4bit'' [] [''bool''],
        field_decl ''bnb_4bit_compute_dtype'' [''torch''] [''torch''],
        field_decl ''bnb_4bit_quant_type'' [] [''Optional'', ''str''],
        field_decl ''use_nested_quant'' [] [''Optional'', ''bool'']]"

definition class_QloraArguments :: "globals \<Rightarrow> pyerror + globals" where
  "class_QloraArguments =
     class_stmt ''QloraArguments'' 83 [''LoraConfig'']
       [field_decl ''lora_r'' [] [''Optional'', ''int''],
        field_decl ''lora_alpha'' [] [''Optional'', ''int''],
        field_decl ''lora_dropout'' [] [''Optional'', ''float''],
        field_decl ''bias'' [] [''Optional'', ''str''],
        field_decl ''task_type'' [] [''Optional'', ''str'']]"

text \<open>
  A function definition evaluates the annotations of its signature and binds
  the name to a new function object; a later definition of the same name
  rebinds it.
\<close>

definition def_stmt :: "string \<Rightarrow> nat \<Rightarrow> string list \<Rightarrow> globals \<Rightarrow> pyerror + globals" where
  "def_stmt name line annotation_names g =
     and_then (load_names g annotation_names) (\<lambda>_.
     Inr (g(name \<mapsto> PFunction name line)))"

definition defs_106_to_120 :: "(globals \<Rightarrow> pyerror + globals) list" where
  "defs_106_to_120 =
     [def_stmt ''safe_save_model_for_hf_trainer'' 106 [''Trainer'', ''str''],
      def_stmt ''preprocess_data'' 117 [''PreTrainedTokenizer'', ''Dict''],
      def_stmt ''finetune'' 120 []]"

definition defs_126_to_144 :: "(globals \<Rightarrow> pyerror + globals) list" where
  "defs_126_to_144 =
     [def_stmt ''build_bnb_config'' 126 [''BitsAndBytesConfig''],
      def_stmt ''build_lora_config'' 134 [''LoraConfig''],
      def_stmt ''finetune'' 144 []]"

text \<open>
  Lines 169-170 call whatever object the name \<^verbatim>\<open>finetune\<close> is bound to, without
  arguments, when the module runs as a script. The two function objects of the
  entry function run their bodies on the current globals; any other object of
  this model is taken to raise TypeError on such a call.
\<close>

definition call_without_arguments ::
    "globals \<Rightarrow> world \<Rightarrow> filesystem \<Rightarrow> pyval \<Rightarrow> pyerror option" where
  "call_without_arguments g w fs f =
     (if f = PFunction ''finetune'' 144 then fst (finetune_144 g w fs)
      else if f = PFunction ''finetune'' 120 then fst (finetune_120 g w)
      else Some (TypeError ''call without arguments''))"

definition line_169 :: "world \<Rightarrow> filesystem \<Rightarrow> globals \<Rightarrow> pyerror + globals" where
  "line_169 w fs g =
     and_then (load_name g ''__name__'') (\<lambda>name.
     if name = PStr ''__main__'' then
       and_then (load_name g ''finetune'') (\<lambda>f.
       case call_without_arguments g w fs f of
         Some e \<Rightarrow> Inl e
       | None \<Rightarrow> Inr g)
     else Inr g)"

definition statements_before_line_48 :: "world \<Rightarrow> (globals \<Rightarrow> pyerror + globals) list" where
  "statements_before_line_48 w =
     import_statements w @ [line_23, line_24, class_ModelArguments, class_DataArguments]"

definition statements_after_line_60 ::
    "world \<Rightarrow> filesystem \<Rightarrow> (globals \<Rightarrow> pyerror + globals) list" where
  "statements_after_line_60 w fs =
     [class_QuanitzationArguments, class_QloraArguments]
     @ defs_106_to_120 @ defs_126_to_144 @ [line_169 w fs]"

definition module_body :: "world \<Rightarrow> filesystem \<Rightarrow> (globals \<Rightarrow> pyerror + globals) list" where
  "module_body w fs =
     statements_before_line_48 w @ [class_ModelTrainingArguments]
     @ statements_after_line_60 w fs"

definition run_script :: "world \<Rightarrow> filesystem \<Rightarrow> pyerror option \<times> globals" where
  "run_script w fs = run (module_body w fs) (initial_globals ''__main__'')"

section \<open>Example inputs\<close>

text \<open>
  Concrete inputs on which the theorems below are instantiated: a world in which
  every package is installed and every library call succeeds, the parser
  yielding the declared defaults with the output directory \<^verbatim>\<open>out\<close>; a
  filesystem whose directory \<^verbatim>\<open>out\<close> holds one checkpoint and one other entry;
  the globals holding every name that the top-level statements before line 106
  bind; and the same with the names of the function definitions added.
\<close>

definition example_training_args :: ModelTrainingArguments where
  "example_training_args =
     \<lparr> output_dir = PStr ''out'', cache_dir = PNone, model_max_length = PInt 512 \<rparr>"

definition example_world :: world where
  "example_world =
     \<lparr> installed = (\<lambda>_. True),
       HfArgumentParser_init = (\<lambda>_. Inr (PExternal ''transformers.HfArgumentParser()'')),
       parse_args_into_dataclasses = (\<lambda>_. Inr
         (\<lparr> model_name = PStr ''meta-llama/Llama-2-7b-hf'',
             new_model_name = PStr ''airpodmaxsucks-7b-chat'' \<rparr>,
          \<lparr> hf_data_path = PStr ''iamtarun/python_code_instructions_18k_alpaca'',
             personal_data = PNone \<rparr>,
          example_training_args,
          QuanitzationArguments_defaults,
          QloraArguments_defaults)),
       AutoModelForCausalLM_from_pretrained =
         (\<lambda>_ _ _. Inr (PExternal ''transformers.AutoModelForCausalLM()'')),
       AutoTokenizer_from_pretrained =
         (\<lambda>_. Inr \<lparr> pad_token = PNone, eos_token = PStr ''</s>'' \<rparr>) \<rparr>"

definition example_filesystem :: filesystem where
  "example_filesystem dir = (if dir = ''out'' then [''checkpoint-1'', ''runs''] else [])"

definition example_globals_at_line_106 :: globals where
  "example_globals_at_line_106 =
     map_of
       [(''__name__'', PStr ''__main__''),
        (''dataclass'', PExternal ''dataclasses.dataclass''),
        (''field'', PExternal ''dataclasses.field''),
        (''Optional'', PExternal ''typing.Optional''),
        (''Dict'', PExternal ''typing.Dict''),
        (''logging'', PModule ''logging''),
        (''nvidia_smi'', PModule ''nvidia_smi''),
        (''torch'', PModule ''torch''),
        (''load_dataset'', PExternal ''datasets.load_dataset''),
        (''AutoModelForCausalLM'', PExternal ''transformers.AutoModelForCausalLM''),
        (''AutoTokenizer'', PExternal ''transformers.AutoTokenizer''),
        (''PreTrainedTokenizer'', PExternal ''transformers.PreTrainedTokenizer''),
        (''BitsAndBytesConfig'', PExternal ''transformers.BitsAndBytesConfig''),
        (''HfArgumentParser'', PExternal ''transformers.HfArgumentParser''),
        (''Trainer'', PExternal ''transformers.Trainer''),
        (''TrainingArguments'', PExternal ''transformers.TrainingArguments''),
        (''LoraConfig'', PExternal ''peft.LoraConfig''),
        (''AutoPeftModelForCausalLM'', PExternal ''peft.AutoPeftModelForCausalLM''),
        (''SFTTrainer'', PExternal ''trl.SFTTrainer''),
        (''logger'', PExternal ''logging.Logger''),
        (''ModelArguments'', PClass ''ModelArguments'' 27),
        (''DataArguments'', PClass ''DataArguments'' 38),
        (''ModelTrainingArguments'', PClass ''ModelTrainingArguments'' 49),
        (''QuanitzationArguments'', PClass ''QuanitzationArguments'' 63),
        (''QloraArguments'', PClass ''QloraArguments'' 83)]"

definition example_globals :: globals where
  "example_globals =
     example_globals_at_line_106
       (''safe_save_model_for_hf_trainer'' \<mapsto> PFunction ''safe_save_model_for_hf_trainer'' 106,
        ''preprocess_data'' \<mapsto> PFunction ''preprocess_data'' 117,
        ''build_bnb_config'' \<mapsto> PFunction ''build_bnb_config'' 126,
        ''build_lora_config'' \<mapsto> PFunction ''build_lora_config'' 134,
        ''finetune'' \<mapsto> PFunction ''finetune'' 144)"

section \<open>Properties of the builders\<close>

text \<open>
  C1. The claim asks that the quantization configuration carry the input's
  \<^verbatim>\<open>bnb_4bit_quant_type\<close> in its quant-type field and the input's
  \<^verbatim>\<open>use_nested_quant\<close>. On the declared defaults the builder puts the compute
  dtype \<^verbatim>\<open>torch.float16\<close> into the quant-type field instead of \<^verbatim>\<open>"nf4"\<close>, and
  passes no nested-quantization keyword at all; only \<^verbatim>\<open>load_in_4bit\<close> is carried
  over.
\<close>

theorem build_bnb_config_defaults_misroute:
  "kwarg (bnb_kwargs (build_bnb_config QuanitzationArguments_defaults)) ''bnb_4bit_quant_type''
     = Some (PDtype ''float16'')
   \<and> kwarg (bnb_kwargs (build_bnb_config QuanitzationArguments_defaults)) ''bnb_4bit_quant_type''
     \<noteq> Some (bnb_4bit_quant_type QuanitzationArguments_defaults)
   \<and> kwarg (bnb_kwargs (build_bnb_config QuanitzationArguments_defaults)) ''use_nested_quant''
     = None
   \<and> kwarg (bnb_kwargs (build_bnb_config QuanitzationArguments_defaults)) ''bnb_4bit_use_double_quant''
     = None
   \<and> kwarg (bnb_kwargs (build_bnb_config QuanitzationArguments_defaults)) ''load_in_4bit''
     = Some (load_in_4bit QuanitzationArguments_defaults)"
  by (simp add: build_bnb_config_def QuanitzationArguments_defaults_def kwarg_def)

text \<open>
  C2. For every \<^verbatim>\<open>QloraArguments\<close> record the adapter configuration carries the
  rank (as keyword \<^verbatim>\<open>r\<close>), alpha, dropout, bias policy and task type of the input,
  unchanged, and nothing else.
\<close>

theorem build_lora_config_preserves:
  "kwarg (lora_kwargs (build_lora_config a)) ''r'' = Some (lora_r a)
   \<and> kwarg (lora_kwargs (build_lora_config a)) ''lora_alpha'' = Some (lora_alpha a)
   \<and> kwarg (lora_kwargs (build_lora_config a)) ''lora_dropout'' = Some (lora_dropout a)
   \<and> kwarg (lora_kwargs (build_lora_config a)) ''bias'' = Some (bias a)
   \<and> kwarg (lora_kwargs (build_lora_config a)) ''task_type'' = Some (task_type a)
   \<and> set (map fst (lora_kwargs (build_lora_config a)))
       = {''r'', ''lora_alpha'', ''lora_dropout'', ''bias'', ''task_type''}"
  by (auto simp add: build_lora_config_def kwarg_def)

text \<open>
  C10. The quantization configuration depends on \<^verbatim>\<open>load_in_4bit\<close> and
  \<^verbatim>\<open>bnb_4bit_compute_dtype\<close> only: two argument records that agree on these two
  fields give equal configurations, whatever their \<^verbatim>\<open>bnb_4bit_quant_type\<close> and
  \<^verbatim>\<open>use_nested_quant\<close>; and no keyword of the result is named after nested
  quantization.
\<close>

theorem build_bnb_config_independent:
  assumes "load_in_4bit q1 = load_in_4bit q2"
    and "bnb_4bit_compute_dtype q1 = bnb_4bit_compute_dtype q2"
  shows "build_bnb_config q1 = build_bnb_config q2
         \<and> map fst (bnb_kwargs (build_bnb_config q1))
             = [''load_in_4bit'', ''bnb_4bit_quant_type'', ''bnb_4bit_compute_dtype'']"
  using assms by (simp add: build_bnb_config_def)

theorem build_bnb_config_independent_witness:
  "build_bnb_config QuanitzationArguments_defaults
     = build_bnb_config
         (QuanitzationArguments_defaults
            \<lparr> bnb_4bit_quant_type := PStr ''fp4'', use_nested_quant := PBool True \<rparr>)
   \<and> QuanitzationArguments_defaults
       \<noteq> QuanitzationArguments_defaults
            \<lparr> bnb_4bit_quant_type := PStr ''fp4'', use_nested_quant := PBool True \<rparr>"
  using build_bnb_config_independent
          [of QuanitzationArguments_defaults
              "QuanitzationArguments_defaults
                 \<lparr> bnb_4bit_quant_type := PStr ''fp4'', use_nested_quant := PBool True \<rparr>"]
  by (simp add: QuanitzationArguments_defaults_def)

section \<open>Properties of the save helper\<close>

lemma safe_save_reaches_save_when_method:
  "safe_save_model_for_hf_trainer
     \<lparr> model_state_dict = Inr [(''w'', \<lparr>storage = 0, device = CUDA 0\<rparr>)],
       args_should_save = Method (Inr (PBool True)),
       saved = [] \<rparr> (PStr ''out'')
   = (Inr PNone,
      \<lparr> model_state_dict = Inr [(''w'', \<lparr>storage = 0, device = CUDA 0\<rparr>)],
        args_should_save = Method (Inr (PBool True)),
        saved = [(PStr ''out'', [(''w'', \<lparr>storage = 0, device = CPU\<rparr>)])] \<rparr>)"
  by (simp add: safe_save_model_for_hf_trainer_def cpu_def)

text \<open>
  C8. When \<^verbatim>\<open>should_save\<close> is a data attribute of the trainer's arguments (in the
  external library it is a boolean property) and not a method, every call of
  \<^verbatim>\<open>safe_save_model_for_hf_trainer\<close> raises: once the state dict has been
  obtained, the call \<^verbatim>\<open>trainer.args.should_save()\<close> raises a TypeError. The trainer
  is left as it was, so \<^verbatim>\<open>_save\<close> is never reached.
\<close>

theorem safe_save_fails_at_should_save:
  assumes "args_should_save trainer = Data v"
  shows "(\<exists>e. fst (safe_save_model_for_hf_trainer trainer dir) = Inl e)
         \<and> (\<forall>sd. model_state_dict trainer = Inr sd \<longrightarrow>
               fst (safe_save_model_for_hf_trainer trainer dir)
                 = Inl (TypeError ''object is not callable''))
         \<and> snd (safe_save_model_for_hf_trainer trainer dir) = trainer
         \<and> saved (snd (safe_save_model_for_hf_trainer trainer dir)) = saved trainer"
  using assms
  by (cases "model_state_dict trainer") (simp_all add: safe_save_model_for_hf_trainer_def)

theorem safe_save_fails_at_should_save_witness:
  "fst (safe_save_model_for_hf_trainer
          \<lparr> model_state_dict = Inr [(''w'', \<lparr>storage = 0, device = CUDA 0\<rparr>)],
            args_should_save = Data (PBool True),
            saved = [] \<rparr> (PStr ''out''))
     = Inl (TypeError ''object is not callable'')
   \<and> saved (snd (safe_save_model_for_hf_trainer
          \<lparr> model_state_dict = Inr [(''w'', \<lparr>storage = 0, device = CUDA 0\<rparr>)],
            args_should_save = Data (PBool True),
            saved = [] \<rparr> (PStr ''out''))) = []"
  using safe_save_fails_at_should_save
          [of "\<lparr> model_state_dict = Inr [(''w'', \<lparr>storage = 0, device = CUDA 0\<rparr>)],
                 args_should_save = Data (PBool True),
                 saved = [] \<rparr>" "PBool True" "PStr ''out''"]
  by simp

section \<open>Running blocks of statements\<close>

lemma run_append:
  "run (xs @ ys) s = (case run xs s of (Some e, s') \<Rightarrow> (Some e, s') | (None, s') \<Rightarrow> run ys s')"
  by (induction xs arbitrary: s) (auto split: sum.splits)

lemma run_invariant:
  assumes "\<And>stmt s s'. stmt \<in> set stmts \<Longrightarrow> P s \<Longrightarrow> stmt s = Inr s' \<Longrightarrow> P s'"
    and "P s"
  shows "P (snd (run stmts s))"
  using assms
proof (induction stmts arbitrary: s)
  case Nil
  then show ?case by simp
next
  case (Cons a stmts)
  show ?case
  proof (cases "a s")
    case (Inl e)
    then show ?thesis using Cons.prems(2) by simp
  next
    case (Inr s')
    have "P s'" using Cons.prems(1)[of a s s'] Cons.prems(2) Inr by simp
    moreover have "\<And>stmt s s'. stmt \<in> set stmts \<Longrightarrow> P s \<Longrightarrow> stmt s = Inr s' \<Longrightarrow> P s'"
      using Cons.prems(1) by auto
    ultimately have "P (snd (run stmts s'))" using Cons.IH by blast
    then show ?thesis using Inr by simp
  qed
qed

lemma and_then_Inr_iff:
  "and_then m f = Inr y \<longleftrightarrow> (\<exists>x. m = Inr x \<and> f x = Inr y)"
  by (cases m) (simp_all add: and_then_def)

section \<open>The preprocessing function is never used\<close>

lemma load_name_upd_other:
  "name \<noteq> n \<Longrightarrow> load_name (g(n := v)) name = load_name g name"
  by (simp add: load_name_def)

lemma new_parser_ignores_preprocess_data:
  "new_parser c (g(''preprocess_data'' := v)) w l = new_parser c g w l" if "c \<noteq> ''preprocess_data''"
  using that by (simp add: new_parser_def parser_classes_def load_name_upd_other)

lemma statements_ignore_preprocess_data:
  "line_121 (g(''preprocess_data'' := v)) = line_121 g"
  "line_145 (g(''preprocess_data'' := v)) = line_145 g"
  "line_150 (g(''preprocess_data'' := v)) = line_150 g"
  "line_151 (g(''preprocess_data'' := v)) = line_151 g"
  "line_153 (g(''preprocess_data'' := v)) = line_153 g"
  "line_159 (g(''preprocess_data'' := v)) = line_159 g"
  "line_164 (g(''preprocess_data'' := v)) = line_164 g"
  by (simp_all add: fun_eq_iff line_121_def line_145_def new_parser_ignores_preprocess_data
        line_150_def line_151_def line_153_def line_159_def line_164_def
        checkpoint_discovery_def load_name_upd_other)

text \<open>
  C7. \<^verbatim>\<open>preprocess_data\<close> returns the empty dict for every source and every
  tokenizer, and neither definition of the entry function invokes it: a call of
  either definition gives the same exception and the same frame whatever the
  name \<^verbatim>\<open>preprocess_data\<close> is bound to in the globals, also when it is unbound.
\<close>

theorem preprocess_data_empty_and_never_invoked:
  "preprocess_data source tok = PDict []
   \<and> finetune_120 (g(''preprocess_data'' := v)) w = finetune_120 g w
   \<and> finetune_144 (g(''preprocess_data'' := v)) w fs = finetune_144 g w fs"
  by (simp only: finetune_120_def finetune_144_def lines_145_to_160_def
        statements_ignore_preprocess_data preprocess_data_def simp_thms)


section \<open>The resume flag and the checkpoint list\<close>

lemma finetune_144_split:
  "finetune_144 g w fs =
     (case run (lines_145_to_160 g w) new_frame of
        (Some e, l) \<Rightarrow> (Some e, l)
      | (None, l) \<Rightarrow> run [line_163, line_164 g fs] l)"
  by (simp add: finetune_144_def run_append)

lemma statements_keep_resume_flag:
  "new_parser c g w l = Inr l' \<Longrightarrow> resume_from_checkpoint l' = resume_from_checkpoint l"
  "parse_args w l = Inr l' \<Longrightarrow> resume_from_checkpoint l' = resume_from_checkpoint l"
  "line_150 g l = Inr l' \<Longrightarrow> resume_from_checkpoint l' = resume_from_checkpoint l"
  "line_151 g l = Inr l' \<Longrightarrow> resume_from_checkpoint l' = resume_from_checkpoint l"
  "line_153 g w l = Inr l' \<Longrightarrow> resume_from_checkpoint l' = resume_from_checkpoint l"
  "line_159 g w l = Inr l' \<Longrightarrow> resume_from_checkpoint l' = resume_from_checkpoint l"
  "line_160 l = Inr l' \<Longrightarrow> resume_from_checkpoint l' = resume_from_checkpoint l"
  "line_164 g fs l = Inr l' \<Longrightarrow> resume_from_checkpoint l' = resume_from_checkpoint l"
  by (auto simp add: new_parser_def parse_args_def line_150_def line_151_def line_153_def
        line_159_def line_160_def line_164_def and_then_Inr_iff split: prod.splits)

lemma lines_145_to_160_resume_unset:
  "resume_from_checkpoint (snd (run (lines_145_to_160 g w) new_frame)) = None"
proof (rule run_invariant [where P = "\<lambda>l. resume_from_checkpoint l = None"])
  fix stmt l l'
  assume "stmt \<in> set (lines_145_to_160 g w)" and "resume_from_checkpoint l = None"
    and "stmt l = Inr l'"
  then show "resume_from_checkpoint l' = None"
    by (auto simp add: lines_145_to_160_def line_145_def line_148_def
          dest: statements_keep_resume_flag)
next
  show "resume_from_checkpoint new_frame = None" by (simp add: new_frame_def)
qed

lemma checkpoint_discovery_raises_alike:
  "checkpoint_discovery g fs a = Inl e \<longleftrightarrow> checkpoint_discovery g fs' a = Inl e"
  by (cases "load_name g ''list''"; cases "load_name g ''pathlib''"; cases a;
      simp add: checkpoint_discovery_def and_then_def load_local_def split: pyval.splits)

lemma line_164_cases:
  "(\<exists>e. line_164 g fs l = Inl e \<and> line_164 g fs' l = Inl e)
   \<or> (\<exists>found found'. line_164 g fs l = Inr (l\<lparr>checkpoints := Some found\<rparr>)
          \<and> line_164 g fs' l = Inr (l\<lparr>checkpoints := Some found'\<rparr>))"
proof (cases "checkpoint_discovery g fs (training_args l)")
  case (Inl e)
  then have "checkpoint_discovery g fs' (training_args l) = Inl e"
    using checkpoint_discovery_raises_alike by blast
  with Inl show ?thesis by (simp add: line_164_def and_then_def)
next
  case (Inr found)
  then obtain found' where "checkpoint_discovery g fs' (training_args l) = Inr found'"
    using checkpoint_discovery_raises_alike [of g fs' "training_args l" _ fs]
    by (cases "checkpoint_discovery g fs' (training_args l)") auto
  with Inr show ?thesis by (auto simp add: line_164_def and_then_def)
qed

text \<open>
  C5. Whatever the output directory holds, a call of the entry function ends
  with the same exception or the same normal return, and with the same frame
  apart from the variable \<^verbatim>\<open>checkpoints\<close> itself: the checkpoint list is never
  read. The resume flag is unassigned until line 163 and \<^verbatim>\<open>False\<close> from then on:
  nothing updates it after the scan.
\<close>

theorem checkpoint_list_never_consulted:
  "fst (finetune_144 g w fs) = fst (finetune_144 g w fs')
   \<and> (snd (finetune_144 g w fs))\<lparr>checkpoints := None\<rparr>
       = (snd (finetune_144 g w fs'))\<lparr>checkpoints := None\<rparr>
   \<and> (resume_from_checkpoint (snd (finetune_144 g w fs)) = None
       \<or> resume_from_checkpoint (snd (finetune_144 g w fs)) = Some (PBool False))"
proof (cases "run (lines_145_to_160 g w) new_frame")
  case (Pair r l)
  have unset: "resume_from_checkpoint l = None"
    using lines_145_to_160_resume_unset [of g w] Pair by simp
  show ?thesis
  proof (cases r)
    case (Some e)
    with Pair unset show ?thesis by (simp add: finetune_144_split)
  next
    case None
    let ?l = "l\<lparr>resume_from_checkpoint := Some (PBool False)\<rparr>"
    from line_164_cases [of g fs ?l fs'] None Pair show ?thesis
      by (auto simp add: finetune_144_split line_163_def)
  qed
qed

section \<open>The unbound name at line 165\<close>

lemma line_164_without_pathlib:
  assumes "g ''pathlib'' = None"
  shows "line_164 g fs l = Inl (NameError ''pathlib'')"
  using assms
  by (cases "g ''list''")
     (simp_all add: line_164_def checkpoint_discovery_def load_name_def builtins_def and_then_def)

section \<open>The checkpoint pattern\<close>

lemma fnmatch_star: "fnmatch name ''*''"
  by (induction name) simp_all

lemma fnmatch_literal:
  "p \<noteq> CHR ''*'' \<Longrightarrow>
     fnmatch name (p # ps) = (case name of [] \<Rightarrow> False | c # cs \<Rightarrow> c = p \<and> fnmatch cs ps)"
  by (cases name) simp_all

lemma fnmatch_checkpoint:
  "fnmatch name ''checkpoint-*'' \<longleftrightarrow> take 11 name = ''checkpoint-''"
  by (auto simp add: fnmatch_literal fnmatch_star split: list.splits)

lemma checkpoint_discovery_when_pathlib_bound:
  assumes "g ''pathlib'' = Some v" and "output_dir ta = PStr d"
  shows "checkpoint_discovery g fs (Some ta)
           = Inr (map (Pair d) (filter (\<lambda>name. take 11 name = ''checkpoint-'') (fs d)))"
  using assms
  by (cases "g ''list''")
     (simp_all add: checkpoint_discovery_def load_name_def builtins_def and_then_def
        load_local_def glob_def fnmatch_checkpoint)

section \<open>The two definitions of the entry function\<close>

lemma def_stmt_binds:
  "def_stmt name line anns g = Inr g' \<Longrightarrow> g' = g(name \<mapsto> PFunction name line)"
  by (auto simp add: def_stmt_def and_then_Inr_iff)

lemma defs_106_to_120_bind:
  assumes "run defs_106_to_120 g = (None, g1)"
  shows "g1 = g(''safe_save_model_for_hf_trainer'' \<mapsto> PFunction ''safe_save_model_for_hf_trainer'' 106,
               ''preprocess_data'' \<mapsto> PFunction ''preprocess_data'' 117,
               ''finetune'' \<mapsto> PFunction ''finetune'' 120)"
  using assms
  by (auto simp add: defs_106_to_120_def split: sum.splits dest!: def_stmt_binds)

lemma defs_126_to_144_bind:
  assumes "run defs_126_to_144 g1 = (None, g2)"
  shows "g2 = g1(''build_bnb_config'' \<mapsto> PFunction ''build_bnb_config'' 126,
                ''build_lora_config'' \<mapsto> PFunction ''build_lora_config'' 134,
                ''finetune'' \<mapsto> PFunction ''finetune'' 144)"
  using assms
  by (auto simp add: defs_126_to_144_def split: sum.splits dest!: def_stmt_binds)

text \<open>
  C4. The script defines \<^verbatim>\<open>finetune\<close> twice. After the definitions of lines
  106-124 the name denotes the function of line 120; after those of lines
  126-165 it denotes the function of line 144, which has replaced the first. The
  call at line 170 of a module run as a script therefore runs the body of the
  second definition and never that of the first.
\<close>

theorem finetune_denotes_second_definition:
  assumes "run defs_106_to_120 g = (None, g1)"
    and "run defs_126_to_144 g1 = (None, g2)"
    and "g ''__name__'' = Some (PStr ''__main__'')"
  shows "g1 ''finetune'' = Some (PFunction ''finetune'' 120)
         \<and> g2 ''finetune'' = Some (PFunction ''finetune'' 144)
         \<and> line_169 w fs g2
             = (case fst (finetune_144 g2 w fs) of Some e \<Rightarrow> Inl e | None \<Rightarrow> Inr g2)"
proof -
  note b1 = defs_106_to_120_bind [OF assms(1)] and b2 = defs_126_to_144_bind [OF assms(2)]
  have first: "g1 ''finetune'' = Some (PFunction ''finetune'' 120)"
    by (simp add: b1)
  have second: "g2 ''finetune'' = Some (PFunction ''finetune'' 144)"
    by (simp add: b2)
  have name: "g2 ''__name__'' = Some (PStr ''__main__'')"
    using assms(3) by (simp add: b1 b2)
  have "line_169 w fs g2
          = (case fst (finetune_144 g2 w fs) of Some e \<Rightarrow> Inl e | None \<Rightarrow> Inr g2)"
    using second name
    by (simp add: line_169_def load_name_def and_then_def call_without_arguments_def)
  with first second show ?thesis by simp
qed


section \<open>The class statement of lines 48-60\<close>

lemmas module_statement_defs =
  import_statements_def from_import_def import_module_def importable_def stdlib_def
  line_23_def line_24_def class_ModelArguments_def class_DataArguments_def class_stmt_def
  field_decl_def load_class_name_def load_name_def builtins_def and_then_def

lemma statements_before_line_48_bind:
  assumes "run (statements_before_line_48 w) (initial_globals name) = (None, g)"
  shows "g ''dataclass'' = Some (PExternal ''dataclasses.dataclass'')
         \<and> g ''field'' = Some (PExternal ''dataclasses.field'')
         \<and> g ''Optional'' = Some (PExternal ''typing.Optional'')
         \<and> g ''TrainingArguments'' = Some (PExternal ''transformers.TrainingArguments'')"
  using assms
  by (auto simp add: statements_before_line_48_def module_statement_defs initial_globals_def
        split: if_splits)


lemma class_ModelTrainingArguments_raises:
  assumes "g ''dataclass'' = Some d" and "g ''field'' = Some f"
    and "g ''Optional'' = Some (PExternal ''typing.Optional'')"
    and "g ''TrainingArguments'' = Some t"
  shows "class_ModelTrainingArguments g
           = Inl (TypeError ''object does not support item assignment'')"
  using assms
  by (cases "g ''str''")
     (simp_all add: class_ModelTrainingArguments_def class_stmt_def line_53_def
        load_class_name_def load_name_def builtins_def and_then_def)

text \<open>
  C9. When the statements before line 48 have run without an exception, the
  class statement of \<^verbatim>\<open>ModelTrainingArguments\<close> raises: line 53 assigns the
  field to the item \<^verbatim>\<open>str\<close> of \<^verbatim>\<open>typing.Optional\<close>, which supports no item
  assignment. So no run of the module body completes, whatever is installed.
\<close>

theorem ModelTrainingArguments_cannot_be_defined:
  "(run (statements_before_line_48 w) (initial_globals name) = (None, g) \<longrightarrow>
      class_ModelTrainingArguments g
        = Inl (TypeError ''object does not support item assignment''))
   \<and> fst (run (module_body w fs) (initial_globals name)) \<noteq> None"
proof
  show "run (statements_before_line_48 w) (initial_globals name) = (None, g) \<longrightarrow>
      class_ModelTrainingArguments g
        = Inl (TypeError ''object does not support item assignment'')"
    using statements_before_line_48_bind [of w name g]
    by (auto intro: class_ModelTrainingArguments_raises)
next
  obtain r g' where prefix: "run (statements_before_line_48 w) (initial_globals name) = (r, g')"
    by (cases "run (statements_before_line_48 w) (initial_globals name)")
  show "fst (run (module_body w fs) (initial_globals name)) \<noteq> None"
  proof (cases r)
    case (Some e)
    with prefix show ?thesis by (simp add: module_body_def run_append)
  next
    case None
    with prefix have "class_ModelTrainingArguments g'
        = Inl (TypeError ''object does not support item assignment'')"
      using statements_before_line_48_bind [of w name g']
      by (auto intro: class_ModelTrainingArguments_raises)
    with prefix None show ?thesis by (simp add: module_body_def run_append)
  qed
qed



section \<open>The example inputs evaluated\<close>

lemma example_before_line_48:
  "fst (run (statements_before_line_48 example_world) (initial_globals ''__main__'')) = None"
  by (simp add: statements_before_line_48_def module_statement_defs initial_globals_def example_world_def)

lemma example_globals_lookups:
  "example_globals ''pathlib'' = None"
  "example_globals ''list'' = None"
  "example_globals ''__name__'' = Some (PStr ''__main__'')"
  "example_globals ''finetune'' = Some (PFunction ''finetune'' 144)"
  "example_globals ''HfArgumentParser'' = Some (PExternal ''transformers.HfArgumentParser'')"
  "example_globals ''ModelArguments'' = Some (PClass ''ModelArguments'' 27)"
  "example_globals ''DataArguments'' = Some (PClass ''DataArguments'' 38)"
  "example_globals ''ModelTrainingArguments'' = Some (PClass ''ModelTrainingArguments'' 49)"
  "example_globals ''QuanitzationArguments'' = Some (PClass ''QuanitzationArguments'' 63)"
  "example_globals ''QuantizationArguments'' = None"
  "example_globals ''QloraArguments'' = Some (PClass ''QloraArguments'' 83)"
  "example_globals ''build_bnb_config'' = Some (PFunction ''build_bnb_config'' 126)"
  "example_globals ''build_lora_config'' = Some (PFunction ''build_lora_config'' 134)"
  "example_globals ''AutoModelForCausalLM'' = Some (PExternal ''transformers.AutoModelForCausalLM'')"
  "example_globals ''AutoTokenizer'' = Some (PExternal ''transformers.AutoTokenizer'')"
  by (simp_all add: example_globals_def example_globals_at_line_106_def)


section \<open>No statement of the module binds the name of line 165\<close>

lemma bind_imported_other:
  "n \<notin> set names \<Longrightarrow> bind_imported m names g n = g n"
  by (induction names arbitrary: g) auto

lemma statements_keep_other_names:
  "from_import w m names g = Inr g' \<Longrightarrow> n \<notin> set names \<Longrightarrow> g' n = g n"
  "import_module w m g = Inr g' \<Longrightarrow> n \<noteq> m \<Longrightarrow> g' n = g n"
  "class_stmt name line bases body g = Inr g' \<Longrightarrow> n \<noteq> name \<Longrightarrow> g' n = g n"
  "def_stmt name line anns g = Inr g' \<Longrightarrow> n \<noteq> name \<Longrightarrow> g' n = g n"
  "line_23 g = Inr g' \<Longrightarrow> n \<noteq> ''logger'' \<Longrightarrow> g' n = g n"
  "line_24 g = Inr g' \<Longrightarrow> g' n = g n"
  "line_169 w fs g = Inr g' \<Longrightarrow> g' n = g n"
  by (auto simp add: from_import_def import_module_def class_stmt_def def_stmt_def line_23_def
        line_24_def line_169_def and_then_Inr_iff bind_imported_other
        split: if_splits prod.splits option.splits)

lemma module_never_binds_pathlib:
  "snd (run (take k (module_body w fs)) (initial_globals name)) ''pathlib'' = None"
proof (rule run_invariant [where P = "\<lambda>g. g ''pathlib'' = None"])
  fix stmt and g g' :: globals
  assume "stmt \<in> set (take k (module_body w fs))"
  then have "stmt \<in> set (module_body w fs)"
    by (rule in_set_takeD)
  moreover assume "g ''pathlib'' = None" and "stmt g = Inr g'"
  ultimately show "g' ''pathlib'' = None"
    by (auto simp add: module_body_def statements_before_line_48_def statements_after_line_60_def
          import_statements_def defs_106_to_120_def defs_126_to_144_def
          class_ModelArguments_def class_DataArguments_def class_ModelTrainingArguments_def
          class_QuanitzationArguments_def class_QloraArguments_def
          dest!: statements_keep_other_names [where n = "''pathlib''"])
next
  show "initial_globals name ''pathlib'' = None" by (simp add: initial_globals_def)
qed


text \<open>
  C6. No top-level statement binds the name \<^verbatim>\<open>pathlib\<close>: it is unbound in the
  globals after any number of statements of the module. With that name unbound
  no call of the entry function returns normally, and a call that gets as far as
  the checkpoint discovery, that is, one that has assigned the resume flag at
  line 163, raises NameError for \<^verbatim>\<open>pathlib\<close>.
\<close>

theorem finetune_fails_at_pathlib:
  "snd (run (take k (module_body w' fs')) (initial_globals name)) ''pathlib'' = None
   \<and> (g ''pathlib'' = None \<longrightarrow>
        fst (finetune_144 g w fs) \<noteq> None
        \<and> (resume_from_checkpoint (snd (finetune_144 g w fs)) = Some (PBool False)
             \<longrightarrow> fst (finetune_144 g w fs) = Some (NameError ''pathlib'')))"
proof (intro conjI impI)
  show "snd (run (take k (module_body w' fs')) (initial_globals name)) ''pathlib'' = None"
    by (rule module_never_binds_pathlib)
next
  assume unbound: "g ''pathlib'' = None"
  obtain r l where before: "run (lines_145_to_160 g w) new_frame = (r, l)"
    by (cases "run (lines_145_to_160 g w) new_frame")
  have unset: "resume_from_checkpoint l = None"
    using lines_145_to_160_resume_unset [of g w] before by simp
  show "fst (finetune_144 g w fs) \<noteq> None"
    using before unbound
    by (cases r) (simp_all add: finetune_144_split line_163_def line_164_without_pathlib)
  assume "resume_from_checkpoint (snd (finetune_144 g w fs)) = Some (PBool False)"
  then show "fst (finetune_144 g w fs) = Some (NameError ''pathlib'')"
    using before unbound unset
    by (cases r) (simp_all add: finetune_144_split line_163_def line_164_without_pathlib)
qed

lemmas finetune_144_evaluation =
  finetune_144_def lines_145_to_160_def line_145_def line_148_def line_150_def line_151_def
  line_153_def line_159_def line_160_def line_163_def line_164_def checkpoint_discovery_def
  new_parser_def parser_classes_def parse_args_def load_name_def load_local_def builtins_def
  and_then_def new_frame_def example_world_def example_globals_lookups

theorem finetune_fails_at_pathlib_witness:
  "example_globals ''pathlib'' = None
   \<and> resume_from_checkpoint (snd (finetune_144 example_globals example_world example_filesystem))
       = Some (PBool False)
   \<and> fst (finetune_144 example_globals example_world example_filesystem)
       = Some (NameError ''pathlib'')"
proof -
  have unbound: "example_globals ''pathlib'' = None"
    by (simp add: example_globals_lookups)
  have reached:
    "resume_from_checkpoint (snd (finetune_144 example_globals example_world example_filesystem))
       = Some (PBool False)"
    by (simp add: finetune_144_evaluation)
  from finetune_fails_at_pathlib
         [where g = example_globals and w = example_world and fs = example_filesystem]
       unbound reached
  show ?thesis by simp
qed

text \<open>
  C3. The claim asks that the checkpoint discovery return the entries of the
  output directory that match \<^verbatim>\<open>checkpoint-*\<close>. On the directory \<^verbatim>\<open>out\<close> with the
  entries \<^verbatim>\<open>checkpoint-1\<close> and \<^verbatim>\<open>runs\<close> the glob has one match, but the discovery
  of lines 164-165 raises NameError for \<^verbatim>\<open>pathlib\<close> and the entry function
  leaves \<^verbatim>\<open>checkpoints\<close> unassigned.
\<close>

theorem checkpoint_discovery_raises_NameError:
  "example_filesystem ''out'' = [''checkpoint-1'', ''runs'']
   \<and> glob example_filesystem ''out'' ''checkpoint-*'' = [(''out'', ''checkpoint-1'')]
   \<and> output_dir example_training_args = PStr ''out''
   \<and> checkpoint_discovery example_globals example_filesystem (Some example_training_args)
       = Inl (NameError ''pathlib'')
   \<and> fst (finetune_144 example_globals example_world example_filesystem)
       = Some (NameError ''pathlib'')
   \<and> checkpoints (snd (finetune_144 example_globals example_world example_filesystem)) = None"
  by (simp add: finetune_144_evaluation example_filesystem_def example_training_args_def glob_def)

lemma example_defs_106_to_120:
  "fst (run defs_106_to_120 example_globals_at_line_106) = None"
  by (simp add: defs_106_to_120_def def_stmt_def load_name_def and_then_def builtins_def
        example_globals_at_line_106_def)

lemma example_defs_126_to_144:
  "fst (run defs_126_to_144 (snd (run defs_106_to_120 example_globals_at_line_106))) = None"
  by (simp add: defs_106_to_120_def defs_126_to_144_def def_stmt_def load_name_def and_then_def
        builtins_def example_globals_at_line_106_def)

theorem finetune_denotes_second_definition_witness:
  "fst (run defs_106_to_120 example_globals_at_line_106) = None
   \<and> fst (run defs_126_to_144 (snd (run defs_106_to_120 example_globals_at_line_106))) = None
   \<and> example_globals_at_line_106 ''__name__'' = Some (PStr ''__main__'')
   \<and> snd (run defs_106_to_120 example_globals_at_line_106) ''finetune''
       = Some (PFunction ''finetune'' 120)
   \<and> snd (run defs_126_to_144 (snd (run defs_106_to_120 example_globals_at_line_106))) ''finetune''
       = Some (PFunction ''finetune'' 144)"
proof -
  let ?g1 = "snd (run defs_106_to_120 example_globals_at_line_106)"
  let ?g2 = "snd (run defs_126_to_144 ?g1)"
  have r1: "run defs_106_to_120 example_globals_at_line_106 = (None, ?g1)"
    using example_defs_106_to_120 by (simp add: prod_eq_iff)
  have r2: "run defs_126_to_144 ?g1 = (None, ?g2)"
    using example_defs_126_to_144 by (simp add: prod_eq_iff)
  have name: "example_globals_at_line_106 ''__name__'' = Some (PStr ''__main__'')"
    by (simp add: example_globals_at_line_106_def)
  from finetune_denotes_second_definition
         [of example_globals_at_line_106 ?g1 ?g2 example_world example_filesystem] r1 r2 name
  show ?thesis
    using example_defs_106_to_120 example_defs_126_to_144 by simp
qed

theorem ModelTrainingArguments_cannot_be_defined_witness:
  "fst (run (statements_before_line_48 example_world) (initial_globals ''__main__'')) = None
   \<and> class_ModelTrainingArguments
         (snd (run (statements_before_line_48 example_world) (initial_globals ''__main__'')))
       = Inl (TypeError ''object does not support item assignment'')
   \<and> fst (run_script example_world example_filesystem)
       = Some (TypeError ''object does not support item assignment'')"
proof -
  let ?g = "snd (run (statements_before_line_48 example_world) (initial_globals ''__main__''))"
  have r: "run (statements_before_line_48 example_world) (initial_globals ''__main__'') = (None, ?g)"
    using example_before_line_48 by (simp add: prod_eq_iff)
  from ModelTrainingArguments_cannot_be_defined
         [of example_world "''__main__''" ?g example_filesystem] r
  have raises: "class_ModelTrainingArguments ?g
                  = Inl (TypeError ''object does not support item assignment'')"
    by simp
  have "run (module_body example_world example_filesystem) (initial_globals ''__main__'')
          = (Some (TypeError ''object does not support item assignment''), ?g)"
    unfolding module_body_def run_append
    by (subst r) (simp add: raises)
  with example_before_line_48 raises show ?thesis
    by (simp add: run_script_def)
qed

end
